theory Spec2Isabelle
  imports Complex_Main "HOL-Library.AList" "HOL-Library.Product_Lexorder"
begin

section \<open>Strings\<close>

text \<open>
  Python strings are sequences of code points. A \<^typ>\<open>char\<close> is read here as one code
  point in the range U+0000..U+00FF, so a \<^typ>\<open>string\<close> is a Python \<open>str\<close> over that
  range. An \<open>Optional[str]\<close> is a \<^typ>\<open>string option\<close>. Floats are modelled as reals.
\<close>

text \<open>Python truthiness of an \<open>Optional[str]\<close>: \<open>None\<close> and \<open>""\<close> are falsy.\<close>

fun truthy :: "string option \<Rightarrow> bool" where
  "truthy None = False"
| "truthy (Some s) = (s \<noteq> [])"

text \<open>\<open>str.isspace\<close> and the class \<open>\s\<close> of \<open>re\<close> on the code points below 256.\<close>

definition isspace :: "char \<Rightarrow> bool" where
  "isspace c = (let n = (of_char c :: nat) in
     (9 \<le> n \<and> n \<le> 13) \<or> (28 \<le> n \<and> n \<le> 32) \<or> n = 133 \<or> n = 160)"

text \<open>The class \<open>\d\<close> of \<open>re\<close> on the code points below 256: the decimal digits.\<close>

definition isdigit :: "char \<Rightarrow> bool" where
  "isdigit c = (let n = (of_char c :: nat) in 48 \<le> n \<and> n \<le> 57)"

text \<open>\<open>str.lower\<close> on one code point below 256 (A-Z and the Latin-1 capitals, U+00D7 apart).\<close>

definition lower_char :: "char \<Rightarrow> char" where
  "lower_char c = (let n = (of_char c :: nat) in
     if (65 \<le> n \<and> n \<le> 90) \<or> (192 \<le> n \<and> n \<le> 222 \<and> n \<noteq> 215)
     then char_of (n + 32) else c)"

definition lower :: "string \<Rightarrow> string" where
  "lower s = map lower_char s"

text \<open>\<open>str.strip()\<close>: leading and trailing whitespace removed.\<close>

definition strip :: "string \<Rightarrow> string" where
  "strip s = rev (dropWhile isspace (rev (dropWhile isspace s)))"

text \<open>A string with no whitespace at either end.\<close>

definition trimmed :: "string \<Rightarrow> bool" where
  "trimmed s = (s = [] \<or> (\<not> isspace (hd s) \<and> \<not> isspace (last s)))"

text \<open>\<open>re.sub(r'\s+', ' ', text)\<close>: every maximal run of whitespace becomes one space.\<close>

function sub_spaces :: "string \<Rightarrow> string" where
  "sub_spaces [] = []"
| "sub_spaces (c # cs) =
     (if isspace c then CHR '' '' # sub_spaces (dropWhile isspace cs)
      else c # sub_spaces cs)"
  by pat_completeness auto
termination
  by (relation "measure length") (simp_all add: le_imp_less_Suc length_dropWhile_le)

text \<open>\<open>re.sub(r'[^\d]', '', doc)\<close>: every character that is not a digit is removed.\<close>

definition sub_non_digits :: "string \<Rightarrow> string" where
  "sub_non_digits s = filter isdigit s"

section \<open>core/matcher.py: the normalizers\<close>

fun normalize_text :: "string option \<Rightarrow> string" where
  "normalize_text text = (if truthy text then sub_spaces (strip (lower (the text))) else [])"

fun normalize_document :: "string option \<Rightarrow> string" where
  "normalize_document doc = (if truthy doc then sub_non_digits (the doc) else [])"

fun normalize_phone :: "string option \<Rightarrow> string" where
  "normalize_phone phone = (if truthy phone then sub_non_digits (the phone) else [])"

section \<open>The similarity scorer: \<open>difflib.SequenceMatcher\<close>\<close>

text \<open>
  Modelled from the spec: \<open>difflib.SequenceMatcher(None, a, b).ratio()\<close>, the library
  routine behind \<open>similarity_score\<close>, is not under src/. The spec fixes it as Python's
  \<open>SequenceMatcher.ratio\<close>: \<open>2 * M / T\<close>, with \<open>M\<close> the matched characters found by the
  recursive longest-matching-block decomposition and \<open>T = len(a) + len(b)\<close>. The
  definitions below follow that routine step by step, with \<open>isjunk = None\<close> and
  \<open>autojunk = True\<close> as the call in \<open>similarity_score\<close> leaves them.
\<close>

text \<open>\<open>isjunk\<close> is \<open>None\<close>, so the junk set \<open>bjunk\<close> is empty.\<close>

definition isbjunk :: "'a \<Rightarrow> bool" where
  "isbjunk x = False"

text \<open>
  \<open>__chain_b\<close>: the positions of every element of \<open>b\<close>, in increasing order; with 200
  elements or more, an element that fills more than \<open>n // 100 + 1\<close> positions is
  popular and loses its entry.
\<close>

definition bpopular :: "'a list \<Rightarrow> 'a \<Rightarrow> bool" where
  "bpopular b x = (200 \<le> length b \<and> length b div 100 + 1 < count_list b x)"

definition b2j :: "'a list \<Rightarrow> 'a \<Rightarrow> nat list" where
  "b2j b x = (if bpopular b x then [] else filter (\<lambda>j. b ! j = x) [0..<length b])"

text \<open>
  The inner loop of \<open>find_longest_match\<close> over the positions \<open>j\<close> of \<open>a[i]\<close> in \<open>b\<close>:
  \<open>continue\<close> below \<open>blo\<close>, \<open>break\<close> from \<open>bhi\<close> on, and otherwise
  \<open>k = newj2len[j] = j2len.get(j-1, 0) + 1\<close>, the best block replaced when \<open>k\<close> is
  strictly longer. The key \<open>j - 1\<close> of \<open>j = 0\<close> is never in the dictionary.
\<close>

fun match_js :: "nat list \<Rightarrow> nat \<Rightarrow> nat \<Rightarrow> nat \<Rightarrow> (nat \<rightharpoonup> nat) \<Rightarrow>
    (nat \<rightharpoonup> nat) \<times> nat \<times> nat \<times> nat \<Rightarrow> (nat \<rightharpoonup> nat) \<times> nat \<times> nat \<times> nat" where
  "match_js [] i blo bhi j2len (newj2len, besti, bestj, bestsize) =
     (newj2len, besti, bestj, bestsize)"
| "match_js (j # js) i blo bhi j2len (newj2len, besti, bestj, bestsize) =
     (if j < blo then match_js js i blo bhi j2len (newj2len, besti, bestj, bestsize)
      else if bhi \<le> j then (newj2len, besti, bestj, bestsize)
      else
        let k = (if j = 0 then 0 else case j2len (j - 1) of None \<Rightarrow> 0 | Some v \<Rightarrow> v) + 1
        in if bestsize < k
           then match_js js i blo bhi j2len (newj2len(j \<mapsto> k), i + 1 - k, j + 1 - k, k)
           else match_js js i blo bhi j2len (newj2len(j \<mapsto> k), besti, bestj, bestsize))"

text \<open>The outer loop \<open>for i in range(alo, ahi)\<close>, entered at \<open>i\<close>.\<close>

function match_is :: "'a list \<Rightarrow> 'a list \<Rightarrow> nat \<Rightarrow> nat \<Rightarrow> nat \<Rightarrow> nat \<Rightarrow> (nat \<rightharpoonup> nat) \<Rightarrow>
    nat \<times> nat \<times> nat \<Rightarrow> nat \<times> nat \<times> nat" where
  "match_is a b i ahi blo bhi j2len best =
     (if i < ahi
      then case match_js (b2j b (a ! i)) i blo bhi j2len (Map.empty, best) of
             (newj2len, best') \<Rightarrow> match_is a b (Suc i) ahi blo bhi newj2len best'
      else best)"
  by pat_completeness auto
termination
  by (relation "measure (\<lambda>(a, b, i, ahi, blo, bhi, j2len, best). ahi - i)") auto

declare match_is.simps [simp del]

text \<open>
  The two pairs of \<open>while\<close> loops that extend the best block to the left and to the
  right: first over elements that are not junk (\<open>junk = False\<close>), then over junk.
\<close>

function extend_left :: "'a list \<Rightarrow> 'a list \<Rightarrow> nat \<Rightarrow> nat \<Rightarrow> bool \<Rightarrow>
    nat \<times> nat \<times> nat \<Rightarrow> nat \<times> nat \<times> nat" where
  "extend_left a b alo blo junk (besti, bestj, bestsize) =
     (if alo < besti \<and> blo < bestj \<and> isbjunk (b ! (bestj - 1)) = junk
         \<and> a ! (besti - 1) = b ! (bestj - 1)
      then extend_left a b alo blo junk (besti - 1, bestj - 1, bestsize + 1)
      else (besti, bestj, bestsize))"
  by pat_completeness auto
termination
  by (relation "measure (\<lambda>(a, b, alo, blo, junk, besti, bestj, bestsize). besti)") auto

declare extend_left.simps [simp del]

function extend_right :: "'a list \<Rightarrow> 'a list \<Rightarrow> nat \<Rightarrow> nat \<Rightarrow> bool \<Rightarrow>
    nat \<times> nat \<times> nat \<Rightarrow> nat \<times> nat \<times> nat" where
  "extend_right a b ahi bhi junk (besti, bestj, bestsize) =
     (if besti + bestsize < ahi \<and> bestj + bestsize < bhi
         \<and> isbjunk (b ! (bestj + bestsize)) = junk
         \<and> a ! (besti + bestsize) = b ! (bestj + bestsize)
      then extend_right a b ahi bhi junk (besti, bestj, bestsize + 1)
      else (besti, bestj, bestsize))"
  by pat_completeness auto
termination
  by (relation "measure (\<lambda>(a, b, ahi, bhi, junk, besti, bestj, bestsize).
        ahi - (besti + bestsize))") auto

declare extend_right.simps [simp del]

definition find_longest_match :: "'a list \<Rightarrow> 'a list \<Rightarrow> nat \<Rightarrow> nat \<Rightarrow> nat \<Rightarrow> nat \<Rightarrow>
    nat \<times> nat \<times> nat" where
  "find_longest_match a b alo ahi blo bhi =
     extend_right a b ahi bhi True
       (extend_left a b alo blo True
         (extend_right a b ahi bhi False
           (extend_left a b alo blo False
             (match_is a b alo ahi blo bhi Map.empty (alo, blo, 0)))))"

text \<open>
  Every block \<open>find_longest_match\<close> returns lies inside the window it was asked to
  search; the loop of \<open>get_matching_blocks\<close> terminates because of it.
\<close>

definition j2len_ok :: "nat \<Rightarrow> nat \<Rightarrow> nat \<Rightarrow> (nat \<rightharpoonup> nat) \<Rightarrow> bool" where
  "j2len_ok alo blo i m = (\<forall>j v. m j = Some v \<longrightarrow> v + alo \<le> i \<and> v + blo \<le> j + 1)"

definition best_ok :: "nat \<Rightarrow> nat \<Rightarrow> nat \<Rightarrow> nat \<Rightarrow> nat \<times> nat \<times> nat \<Rightarrow> bool" where
  "best_ok alo ahi blo bhi best = (case best of (besti, bestj, bestsize) \<Rightarrow>
     (besti = alo \<and> bestj = blo \<and> bestsize = 0) \<or>
     (alo \<le> besti \<and> besti + bestsize \<le> ahi \<and> blo \<le> bestj \<and> bestj + bestsize \<le> bhi))"

lemma match_js_ok:
  assumes "j2len_ok alo blo i j2len" and "alo \<le> i" and "i < ahi"
  shows "j2len_ok alo blo (Suc i) newj2len \<Longrightarrow> best_ok alo ahi blo bhi best \<Longrightarrow>
    match_js js i blo bhi j2len (newj2len, best) = (m', best') \<Longrightarrow>
    j2len_ok alo blo (Suc i) m' \<and> best_ok alo ahi blo bhi best'"
proof (induction js arbitrary: newj2len best)
  case Nil
  from Nil(3) have "m' = newj2len \<and> best' = best" by (cases best) auto
  then show ?case using Nil(1,2) by simp
next
  case (Cons j js)
  obtain besti bestj bestsize where best: "best = (besti, bestj, bestsize)"
    by (cases best) auto
  show ?case
  proof (cases "j < blo")
    case True
    from Cons.prems(3) have "match_js js i blo bhi j2len (newj2len, best) = (m', best')"
      using True best by simp
    from Cons.IH[OF Cons.prems(1) Cons.prems(2) this] show ?thesis .
  next
    case lo: False
    show ?thesis
    proof (cases "bhi \<le> j")
      case True
      from Cons.prems(3) have "m' = newj2len \<and> best' = best"
        using lo True best by auto
      then show ?thesis using Cons.prems(1,2) by simp
    next
      case hi: False
      define k where "k = (if j = 0 then 0 else case j2len (j - 1) of None \<Rightarrow> 0 | Some v \<Rightarrow> v) + 1"
      have prev: "(if j = 0 then 0 else case j2len (j - 1) of None \<Rightarrow> 0 | Some v \<Rightarrow> v) + alo \<le> i
          \<and> (if j = 0 then 0 else case j2len (j - 1) of None \<Rightarrow> 0 | Some v \<Rightarrow> v) + blo \<le> j"
      proof (cases "j = 0")
        case True
        then show ?thesis using assms(2) lo by simp
      next
        case j0: False
        show ?thesis
        proof (cases "j2len (j - 1)")
          case None
          then show ?thesis using assms(2) lo j0 by simp
        next
          case (Some v)
          from assms(1) Some have "v + alo \<le> i \<and> v + blo \<le> (j - 1) + 1"
            unfolding j2len_ok_def by blast
          then show ?thesis using Some j0 by simp
        qed
      qed
      have k1: "k + alo \<le> Suc i" and k2: "k + blo \<le> j + 1"
        using prev unfolding k_def by simp_all
      have new: "j2len_ok alo blo (Suc i) (newj2len(j \<mapsto> k))"
        using Cons.prems(1) k1 k2 unfolding j2len_ok_def by auto
      show ?thesis
      proof (cases "bestsize < k")
        case True
        have b: "best_ok alo ahi blo bhi (i + 1 - k, j + 1 - k, k)"
          using k1 k2 hi assms unfolding best_ok_def by auto
        from Cons.prems(3) have "match_js js i blo bhi j2len (newj2len(j \<mapsto> k), i + 1 - k, j + 1 - k, k) = (m', best')"
          using lo hi True best by (simp add: k_def Let_def)
        from Cons.IH[OF new b this] show ?thesis .
      next
        case False
        from Cons.prems(3) have "match_js js i blo bhi j2len (newj2len(j \<mapsto> k), best) = (m', best')"
          using lo hi False best by (simp add: k_def Let_def)
        from Cons.IH[OF new Cons.prems(2) this] show ?thesis .
      qed
    qed
  qed
qed

lemma match_is_ok:
  "j2len_ok alo blo i j2len \<Longrightarrow> best_ok alo ahi blo bhi best \<Longrightarrow> alo \<le> i \<Longrightarrow>
   best_ok alo ahi blo bhi (match_is a b i ahi blo bhi j2len best)"
proof (induction a b i ahi blo bhi j2len best rule: match_is.induct)
  case (1 a b i ahi blo bhi j2len best)
  show ?case
  proof (cases "i < ahi")
    case False
    with 1 show ?thesis by (subst match_is.simps) simp
  next
    case True
    obtain m' best' where r: "match_js (b2j b (a ! i)) i blo bhi j2len (Map.empty, best) = (m', best')"
      by (cases "match_js (b2j b (a ! i)) i blo bhi j2len (Map.empty, best)") auto
    have e: "j2len_ok alo blo (Suc i) Map.empty" by (simp add: j2len_ok_def)
    from match_js_ok[OF "1.prems"(1) "1.prems"(3) True e "1.prems"(2) r]
    have ok: "j2len_ok alo blo (Suc i) m'" "best_ok alo ahi blo bhi best'" by auto
    have "best_ok alo ahi blo bhi (match_is a b (Suc i) ahi blo bhi m' best')"
      using "1.IH"[OF True r[symmetric] ok] "1.prems"(3) by simp
    then show ?thesis using True r by (subst match_is.simps) simp
  qed
qed

lemma extend_left_ok:
  "best_ok alo ahi blo bhi best \<Longrightarrow> best_ok alo ahi blo bhi (extend_left a b alo blo junk best)"
proof (induction a b alo blo junk best rule: extend_left.induct)
  case (1 a b alo blo junk besti bestj bestsize)
  show ?case
  proof (cases "alo < besti \<and> blo < bestj \<and> isbjunk (b ! (bestj - 1)) = junk
         \<and> a ! (besti - 1) = b ! (bestj - 1)")
    case True
    have "best_ok alo ahi blo bhi (besti - 1, bestj - 1, bestsize + 1)"
      using "1.prems" True unfolding best_ok_def by auto
    from "1.IH"[OF True this] show ?thesis using True by (subst extend_left.simps) simp
  next
    case False
    then show ?thesis using "1.prems" by (subst extend_left.simps) auto
  qed
qed

lemma extend_right_ok:
  "best_ok alo ahi blo bhi best \<Longrightarrow> best_ok alo ahi blo bhi (extend_right a b ahi bhi junk best)"
proof (induction a b ahi bhi junk best rule: extend_right.induct)
  case (1 a b ahi bhi junk besti bestj bestsize)
  show ?case
  proof (cases "besti + bestsize < ahi \<and> bestj + bestsize < bhi
         \<and> isbjunk (b ! (bestj + bestsize)) = junk
         \<and> a ! (besti + bestsize) = b ! (bestj + bestsize)")
    case True
    have "best_ok alo ahi blo bhi (besti, bestj, bestsize + 1)"
      using "1.prems" True unfolding best_ok_def by auto
    from "1.IH"[OF True this] show ?thesis using True by (subst extend_right.simps) simp
  next
    case False
    then show ?thesis using "1.prems" by (subst extend_right.simps) auto
  qed
qed

lemma find_longest_match_ok:
  "best_ok alo ahi blo bhi (find_longest_match a b alo ahi blo bhi)"
  unfolding find_longest_match_def
  by (intro extend_right_ok extend_left_ok match_is_ok)
     (simp_all add: j2len_ok_def best_ok_def)

lemma find_longest_match_bounds:
  "find_longest_match a b alo ahi blo bhi = (i, j, k) \<Longrightarrow> k \<noteq> 0 \<Longrightarrow>
   alo \<le> i \<and> i + k \<le> ahi \<and> blo \<le> j \<and> j + k \<le> bhi"
  using find_longest_match_ok[of alo ahi blo bhi a b] by (auto simp: best_ok_def)

text \<open>
  The \<open>while queue\<close> loop of \<open>get_matching_blocks\<close>. \<open>queue.pop()\<close> takes the last
  element, so the list is kept with its top first: of the two windows appended, the
  right one is popped before the left one.
\<close>

function matching_blocks_loop :: "'a list \<Rightarrow> 'a list \<Rightarrow> (nat \<times> nat \<times> nat \<times> nat) list \<Rightarrow>
    (nat \<times> nat \<times> nat) list \<Rightarrow> (nat \<times> nat \<times> nat) list" where
  "matching_blocks_loop a b [] matching_blocks = matching_blocks"
| "matching_blocks_loop a b ((alo, ahi, blo, bhi) # queue) matching_blocks =
     (case find_longest_match a b alo ahi blo bhi of (i, j, k) \<Rightarrow>
        if k \<noteq> 0
        then matching_blocks_loop a b
               ((if i + k < ahi \<and> j + k < bhi then [(i + k, ahi, j + k, bhi)] else []) @
                (if alo < i \<and> blo < j then [(alo, i, blo, j)] else []) @ queue)
               (matching_blocks @ [(i, j, k)])
        else matching_blocks_loop a b queue matching_blocks)"
  by pat_completeness auto
termination
proof (relation "measure (\<lambda>(a, b, queue, matching_blocks).
    sum_list (map (\<lambda>(alo, ahi, blo, bhi). Suc ((ahi - alo) + (bhi - blo))) queue))", goal_cases)
  case 1
  show ?case by simp
next
  case (2 a b alo ahi blo bhi queue matching_blocks i y j k)
  from 2(1,2) have "find_longest_match a b alo ahi blo bhi = (i, j, k)" by simp
  from find_longest_match_bounds[OF this 2(3)]
  have "alo \<le> i" "i + k \<le> ahi" "blo \<le> j" "j + k \<le> bhi" by auto
  with 2(3) show ?case by auto
next
  case 3
  then show ?case by simp
qed

declare matching_blocks_loop.simps [simp del]

text \<open>
  The loop after \<open>matching_blocks.sort()\<close> that merges adjacent blocks, with
  \<open>(i1, j1, k1)\<close> the block being grown.
\<close>

fun collapse_adjacent :: "(nat \<times> nat \<times> nat) list \<Rightarrow> nat \<times> nat \<times> nat \<Rightarrow>
    (nat \<times> nat \<times> nat) list \<Rightarrow> (nat \<times> nat \<times> nat) list \<times> (nat \<times> nat \<times> nat)" where
  "collapse_adjacent [] (i1, j1, k1) non_adjacent = (non_adjacent, (i1, j1, k1))"
| "collapse_adjacent ((i2, j2, k2) # rest) (i1, j1, k1) non_adjacent =
     (if i1 + k1 = i2 \<and> j1 + k1 = j2
      then collapse_adjacent rest (i1, j1, k1 + k2) non_adjacent
      else collapse_adjacent rest (i2, j2, k2)
             (if k1 \<noteq> 0 then non_adjacent @ [(i1, j1, k1)] else non_adjacent))"

definition get_matching_blocks :: "'a list \<Rightarrow> 'a list \<Rightarrow> (nat \<times> nat \<times> nat) list" where
  "get_matching_blocks a b =
     (let la = length a; lb = length b;
          matching_blocks = sort (matching_blocks_loop a b [(0, la, 0, lb)] [])
      in case collapse_adjacent matching_blocks (0, 0, 0) [] of
           (non_adjacent, (i1, j1, k1)) \<Rightarrow>
             (if k1 \<noteq> 0 then non_adjacent @ [(i1, j1, k1)] else non_adjacent) @ [(la, lb, 0)])"

definition calculate_ratio :: "nat \<Rightarrow> nat \<Rightarrow> real" where
  "calculate_ratio matches length_ab =
     (if length_ab \<noteq> 0 then 2 * real matches / real length_ab else 1)"

definition ratio :: "'a list \<Rightarrow> 'a list \<Rightarrow> real" where
  "ratio a b =
     calculate_ratio (sum_list (map (\<lambda>(i, j, k). k) (get_matching_blocks a b)))
       (length a + length b)"

section \<open>core/matcher.py: \<open>similarity_score\<close>\<close>

definition similarity_score :: "string \<Rightarrow> string \<Rightarrow> real" where
  "similarity_score str1 str2 = (if str1 = [] \<or> str2 = [] then 0 else ratio str1 str2)"

section \<open>models/schemas.py and config.py\<close>

record CustomerData =
  email :: "string option"
  documento :: "string option"
  nome :: "string option"
  telefone :: "string option"
  endereco :: "string option"
  cidade :: "string option"
  estado :: "string option"
  cep :: "string option"
  data_nascimento :: "string option"
  profissao :: "string option"

text \<open>\<open>CustomerData()\<close>: every field defaults to \<open>None\<close>.\<close>

definition CustomerData_init :: CustomerData where
  "CustomerData_init = \<lparr>email = None, documento = None, nome = None, telefone = None,
     endereco = None, cidade = None, estado = None, cep = None, data_nascimento = None,
     profissao = None\<rparr>"

definition MATCH_THRESHOLD :: real where
  "MATCH_THRESHOLD = 0.7"

definition SIMILARITY_THRESHOLD :: real where
  "SIMILARITY_THRESHOLD = 0.8"

definition LOW_SIMILARITY_THRESHOLD :: real where
  "LOW_SIMILARITY_THRESHOLD = 0.3"

text \<open>
  The dictionary \<open>FIELD_WEIGHTS\<close>, read at a key. The matcher only reads its six keys;
  any other key is given 0 here.
\<close>

definition FIELD_WEIGHTS :: "string \<Rightarrow> real" where
  "FIELD_WEIGHTS key =
     (if key = ''documento'' then 0.40
      else if key = ''email'' then 0.25
      else if key = ''telefone'' then 0.20
      else if key = ''nome'' then 0.05
      else if key = ''endereco'' then 0.05
      else if key = ''data_nascimento'' then 0.05
      else 0)"

section \<open>core/matcher.py: the field rules and \<open>calculate_match_score\<close>\<close>

record CustomerMatcher =
  weights :: "string \<Rightarrow> real"
  similarity_threshold :: real
  low_similarity_threshold :: real

text \<open>\<open>CustomerMatcher()\<close>: \<open>weights or FIELD_WEIGHTS\<close> with no weights given.\<close>

definition CustomerMatcher_init :: CustomerMatcher where
  "CustomerMatcher_init = \<lparr>weights = FIELD_WEIGHTS,
     similarity_threshold = SIMILARITY_THRESHOLD,
     low_similarity_threshold = LOW_SIMILARITY_THRESHOLD\<rparr>"

text \<open>
  A conflict dictionary keeps its keys in insertion order: an association list.
  \<open>dict.update\<close> overwrites a key in place and appends a new one.
\<close>

type_synonym conflict_dict = "(string \<times> string) list"

definition dict_update :: "conflict_dict \<Rightarrow> conflict_dict \<Rightarrow> conflict_dict" where
  "dict_update d other = fold (\<lambda>(k, v). AList.update k v) other d"

fun check_document_match :: "CustomerMatcher \<Rightarrow> string option \<Rightarrow> string option \<Rightarrow>
    real \<times> conflict_dict" where
  "check_document_match self doc1 doc2 =
     (if \<not> truthy doc1 \<or> \<not> truthy doc2 then (0, [])
      else
        let normalized_doc1 = normalize_document doc1;
            normalized_doc2 = normalize_document doc2
        in if normalized_doc1 = normalized_doc2 \<and> normalized_doc1 \<noteq> []
           then (weights self ''documento'', [])
           else if normalized_doc1 \<noteq> [] \<and> normalized_doc2 \<noteq> []
                   \<and> normalized_doc1 \<noteq> normalized_doc2
           then (0, [(''documento'',
                      ''Doc1: '' @ normalized_doc1 @ '' vs Doc2: '' @ normalized_doc2)])
           else (0, []))"

fun check_email_match :: "CustomerMatcher \<Rightarrow> string option \<Rightarrow> string option \<Rightarrow> real" where
  "check_email_match self email1 email2 =
     (if \<not> truthy email1 \<or> \<not> truthy email2 then 0
      else if lower (the email1) = lower (the email2) then weights self ''email''
      else 0)"

fun check_name_match :: "CustomerMatcher \<Rightarrow> string option \<Rightarrow> string option \<Rightarrow>
    real \<times> conflict_dict" where
  "check_name_match self name1 name2 =
     (if \<not> truthy name1 \<or> \<not> truthy name2 then (0, [])
      else
        let normalized_name1 = normalize_text name1;
            normalized_name2 = normalize_text name2;
            similarity = similarity_score normalized_name1 normalized_name2
        in if similarity > similarity_threshold self
           then (weights self ''nome'' * similarity, [])
           else if similarity < low_similarity_threshold self
           then (0, [(''nome'', ''Nome1: '' @ the name1 @ '' vs Nome2: '' @ the name2)])
           else (0, []))"

fun check_phone_match :: "CustomerMatcher \<Rightarrow> string option \<Rightarrow> string option \<Rightarrow>
    real \<times> conflict_dict" where
  "check_phone_match self phone1 phone2 =
     (if \<not> truthy phone1 \<or> \<not> truthy phone2 then (0, [])
      else
        let normalized_phone1 = normalize_phone phone1;
            normalized_phone2 = normalize_phone phone2
        in if normalized_phone1 = normalized_phone2 \<and> normalized_phone1 \<noteq> []
           then (weights self ''telefone'', [])
           else if normalized_phone1 \<noteq> [] \<and> normalized_phone2 \<noteq> []
                   \<and> normalized_phone1 \<noteq> normalized_phone2
           then (0, [(''telefone'',
                      ''Tel1: '' @ normalized_phone1 @ '' vs Tel2: '' @ normalized_phone2)])
           else (0, []))"

fun check_birthdate_match :: "CustomerMatcher \<Rightarrow> string option \<Rightarrow> string option \<Rightarrow>
    real \<times> conflict_dict" where
  "check_birthdate_match self date1 date2 =
     (if \<not> truthy date1 \<or> \<not> truthy date2 then (0, [])
      else if date1 = date2 then (weights self ''data_nascimento'', [])
      else (0, [(''data_nascimento'',
                 ''Data1: '' @ the date1 @ '' vs Data2: '' @ the date2)]))"

fun check_address_match :: "CustomerMatcher \<Rightarrow> string option \<Rightarrow> string option \<Rightarrow> real" where
  "check_address_match self addr1 addr2 =
     (if \<not> truthy addr1 \<or> \<not> truthy addr2 then 0
      else
        let normalized_addr1 = normalize_text addr1;
            normalized_addr2 = normalize_text addr2;
            similarity = similarity_score normalized_addr1 normalized_addr2
        in if similarity > 0.7 then weights self ''endereco'' * similarity else 0)"

text \<open>
  The accumulation of \<open>calculate_match_score\<close> once the document rule has raised no
  conflict, in the order of the source: the values of \<open>total_score\<close>, \<open>total_weight\<close>
  and \<open>all_conflicts\<close> when the final score is computed. \<open>total_weight\<close> grows under
  the tests \<open>customer1.f and customer2.f\<close> of the source, which it has for documento,
  email, nome, telefone and endereco.
\<close>

fun score_totals :: "CustomerMatcher \<Rightarrow> CustomerData \<Rightarrow> CustomerData \<Rightarrow> real \<Rightarrow>
    real \<times> real \<times> conflict_dict" where
  "score_totals self customer1 customer2 doc_score =
     (let total_score = 0 + doc_score;
          total_weight = (if truthy (documento customer1) \<and> truthy (documento customer2)
                          then 0 + weights self ''documento'' else 0);
          all_conflicts = [];
          email_score = check_email_match self (email customer1) (email customer2);
          total_score = total_score + email_score;
          total_weight = (if truthy (email customer1) \<and> truthy (email customer2)
                          then total_weight + weights self ''email'' else total_weight);
          (name_score, name_conflicts) = check_name_match self (nome customer1) (nome customer2);
          total_score = total_score + name_score;
          all_conflicts = dict_update all_conflicts name_conflicts;
          total_weight = (if truthy (nome customer1) \<and> truthy (nome customer2)
                          then total_weight + weights self ''nome'' else total_weight);
          (phone_score, phone_conflicts) =
             check_phone_match self (telefone customer1) (telefone customer2);
          total_score = total_score + phone_score;
          all_conflicts = dict_update all_conflicts phone_conflicts;
          total_weight = (if truthy (telefone customer1) \<and> truthy (telefone customer2)
                          then total_weight + weights self ''telefone'' else total_weight);
          (birthdate_score, birthdate_conflicts) =
             check_birthdate_match self (data_nascimento customer1) (data_nascimento customer2);
          total_score = total_score + birthdate_score;
          all_conflicts = dict_update all_conflicts birthdate_conflicts;
          address_score = check_address_match self (endereco customer1) (endereco customer2);
          total_score = total_score + address_score;
          total_weight = (if truthy (endereco customer1) \<and> truthy (endereco customer2)
                          then total_weight + weights self ''endereco'' else total_weight)
      in (total_score, total_weight, all_conflicts))"

fun calculate_match_score :: "CustomerMatcher \<Rightarrow> CustomerData \<Rightarrow> CustomerData \<Rightarrow>
    real \<times> conflict_dict" where
  "calculate_match_score self customer1 customer2 =
     (case check_document_match self (documento customer1) (documento customer2) of
        (doc_score, doc_conflicts) \<Rightarrow>
          if doc_conflicts \<noteq> [] then (0, doc_conflicts)
          else
            case score_totals self customer1 customer2 doc_score of
              (total_score, total_weight, all_conflicts) \<Rightarrow>
                let final_score = (if total_weight > 0 then total_score / total_weight else 0);
                    final_score = (if length all_conflicts > 1 then final_score * 0.5
                                   else final_score)
                in (final_score, all_conflicts))"

section \<open>models/schemas.py: the remaining dataclasses\<close>

text \<open>
  \<open>CustomerData.is_empty\<close>: every field is \<open>None\<close> or blank after \<open>strip\<close>.
\<close>

fun blank :: "string option \<Rightarrow> bool" where
  "blank None = True"
| "blank (Some v) = (strip v = [])"

definition is_empty :: "CustomerData \<Rightarrow> bool" where
  "is_empty c = list_all blank [email c, documento c, nome c, telefone c, endereco c,
     cidade c, estado c, cep c, data_nascimento c, profissao c]"

text \<open>
  Points in time (\<open>datetime.now()\<close>, and its \<open>isoformat\<close> text, which
  \<open>datetime.fromisoformat\<close> reads back unchanged) are natural numbers.
\<close>

type_synonym datetime = nat

record MatchResult =
  customer_id :: string
  score :: real
  conflicts :: conflict_dict
  is_safe_match :: bool
  reason :: string

record HistoryEntry =
  timestamp :: datetime
  field :: string
  old_value :: "string option"
  new_value :: "string option"
  source :: string
  confidence :: real

section \<open>config.py: \<open>VALID_CUSTOMER_FIELDS\<close>\<close>

text \<open>
  The ten field names that \<open>getattr\<close> and \<open>setattr\<close> are called with, as an
  enumeration; \<open>field_key\<close> gives the name as the string the source writes.
\<close>

datatype customer_field = Nome | Email | Documento | Telefone | Endereco
  | Cidade | Estado | Cep | Data_nascimento | Profissao

definition VALID_CUSTOMER_FIELDS :: "customer_field list" where
  "VALID_CUSTOMER_FIELDS = [Nome, Email, Documento, Telefone, Endereco,
     Cidade, Estado, Cep, Data_nascimento, Profissao]"

fun field_key :: "customer_field \<Rightarrow> string" where
  "field_key Nome = ''nome''"
| "field_key Email = ''email''"
| "field_key Documento = ''documento''"
| "field_key Telefone = ''telefone''"
| "field_key Endereco = ''endereco''"
| "field_key Cidade = ''cidade''"
| "field_key Estado = ''estado''"
| "field_key Cep = ''cep''"
| "field_key Data_nascimento = ''data_nascimento''"
| "field_key Profissao = ''profissao''"

fun getattr :: "'a CustomerData_scheme \<Rightarrow> customer_field \<Rightarrow> string option" where
  "getattr c Nome = nome c"
| "getattr c Email = email c"
| "getattr c Documento = documento c"
| "getattr c Telefone = telefone c"
| "getattr c Endereco = endereco c"
| "getattr c Cidade = cidade c"
| "getattr c Estado = estado c"
| "getattr c Cep = cep c"
| "getattr c Data_nascimento = data_nascimento c"
| "getattr c Profissao = profissao c"

fun setattr :: "'a CustomerData_scheme \<Rightarrow> customer_field \<Rightarrow> string option \<Rightarrow>
    'a CustomerData_scheme" where
  "setattr c Nome v = c\<lparr>nome := v\<rparr>"
| "setattr c Email v = c\<lparr>email := v\<rparr>"
| "setattr c Documento v = c\<lparr>documento := v\<rparr>"
| "setattr c Telefone v = c\<lparr>telefone := v\<rparr>"
| "setattr c Endereco v = c\<lparr>endereco := v\<rparr>"
| "setattr c Cidade v = c\<lparr>cidade := v\<rparr>"
| "setattr c Estado v = c\<lparr>estado := v\<rparr>"
| "setattr c Cep v = c\<lparr>cep := v\<rparr>"
| "setattr c Data_nascimento v = c\<lparr>data_nascimento := v\<rparr>"
| "setattr c Profissao v = c\<lparr>profissao := v\<rparr>"

section \<open>models/database.py: the record store\<close>

text \<open>
  A row of \<open>customers\<close> has the ten columns of \<open>CustomerData\<close> and five more; the
  column \<open>id\<close> is \<open>model_id\<close> here, and the JSON text of \<open>sources\<close> is the list it
  encodes. A row of \<open>customer_history\<close> has the columns of a \<open>HistoryEntry\<close> and
  \<open>customer_id\<close>, here \<open>history_customer_id\<close>; its generated \<open>id\<close> is left out.
\<close>

record CustomerModel = CustomerData +
  model_id :: string
  created_at :: datetime
  updated_at :: datetime
  sources :: "string list"
  confidence_score :: real

record HistoryModel = HistoryEntry +
  history_customer_id :: string

record Database =
  customers :: "CustomerModel list"
  customer_history :: "HistoryModel list"

text \<open>
  Modelled from the spec: the query engine of the record store (SQLAlchemy over the
  database behind \<open>DATABASE_URL\<close>) is not under src/. The spec reads the four
  filters of \<open>_find_potential_matches_in_db\<close> as substring containment for
  \<open>like('%...%')\<close>, equality for \<open>==\<close> and case-insensitive substring containment for
  \<open>ilike('%...%')\<close>; a \<open>NULL\<close> column matches none of them.
\<close>

fun contains :: "string \<Rightarrow> string \<Rightarrow> bool" where
  "contains [] sub = (sub = [])"
| "contains (c # cs) sub = (take (length sub) (c # cs) = sub \<or> contains cs sub)"

fun column_like :: "string option \<Rightarrow> string \<Rightarrow> bool" where
  "column_like None sub = False"
| "column_like (Some v) sub = contains v sub"

fun column_ilike :: "string option \<Rightarrow> string \<Rightarrow> bool" where
  "column_ilike None sub = False"
| "column_ilike (Some v) sub = contains (lower v) (lower sub)"

datatype candidate_query = By_documento string | By_email string | By_nome string
  | By_telefone string

fun run_query :: "Database \<Rightarrow> candidate_query \<Rightarrow> CustomerModel list" where
  "run_query db (By_documento doc_normalized) =
     filter (\<lambda>m. column_like (documento m) doc_normalized) (customers db)"
| "run_query db (By_email e) = filter (\<lambda>m. email m = Some e) (customers db)"
| "run_query db (By_nome part) = filter (\<lambda>m. column_ilike (nome m) part) (customers db)"
| "run_query db (By_telefone tel_normalized) =
     filter (\<lambda>m. column_like (telefone m) tel_normalized) (customers db)"

section \<open>core/cdp.py\<close>

record CustomerDataPlatform =
  matcher :: CustomerMatcher
  match_threshold :: real

definition CustomerDataPlatform_init :: CustomerDataPlatform where
  "CustomerDataPlatform_init =
     \<lparr>matcher = CustomerMatcher_init, match_threshold = MATCH_THRESHOLD\<rparr>"

definition model_to_customer_data :: "CustomerModel \<Rightarrow> CustomerData" where
  "model_to_customer_data model = \<lparr>email = email model, documento = documento model,
     nome = nome model, telefone = telefone model, endereco = endereco model,
     cidade = cidade model, estado = estado model, cep = cep model,
     data_nascimento = data_nascimento model, profissao = profissao model\<rparr>"

text \<open>\<open>str.split()\<close>: the maximal runs of characters that are not whitespace.\<close>

function split_ws :: "string \<Rightarrow> string list" where
  "split_ws s =
     (case dropWhile isspace s of
        [] \<Rightarrow> []
      | c # cs \<Rightarrow> takeWhile (\<lambda>x. \<not> isspace x) (c # cs)
                 # split_ws (dropWhile (\<lambda>x. \<not> isspace x) cs))"
  by pat_completeness auto
termination
proof (relation "measure length", goal_cases)
  case 1
  show ?case by simp
next
  case (2 s c cs)
  have "length (dropWhile (\<lambda>x. \<not> isspace x) cs) \<le> length cs"
    by (rule length_dropWhile_le)
  moreover have "length (c # cs) \<le> length s"
    unfolding 2 [symmetric] by (rule length_dropWhile_le)
  ultimately show ?case by simp
qed

declare split_ws.simps [simp del]

text \<open>
  The lookups \<open>_find_potential_matches_in_db\<close> issues for a record, in the order it
  issues them: by document, by email, by every part of the name longer than two
  characters, by phone.
\<close>

definition candidate_queries :: "CustomerDataPlatform \<Rightarrow> CustomerData \<Rightarrow> candidate_query list"
  where
  "candidate_queries self customer_data =
     (if truthy (documento customer_data)
      then let doc_normalized = normalize_document (documento customer_data)
           in if doc_normalized \<noteq> [] then [By_documento doc_normalized] else []
      else []) @
     (if truthy (email customer_data) then [By_email (the (email customer_data))] else []) @
     (if truthy (nome customer_data)
      then let nome_normalized = normalize_text (nome customer_data)
           in if nome_normalized \<noteq> []
              then map By_nome (filter (\<lambda>part. length part > 2) (split_ws nome_normalized))
              else []
      else []) @
     (if truthy (telefone customer_data)
      then let tel_normalized = normalize_phone (telefone customer_data)
           in if tel_normalized \<noteq> [] then [By_telefone tel_normalized] else []
      else [])"

text \<open>The loop that removes duplicates by \<open>id\<close>, keeping the first of each.\<close>

fun unique_candidates :: "CustomerModel list \<Rightarrow> string list \<Rightarrow> CustomerModel list" where
  "unique_candidates [] seen_ids = []"
| "unique_candidates (candidate # candidates) seen_ids =
     (if model_id candidate \<notin> set seen_ids
      then candidate # unique_candidates candidates (model_id candidate # seen_ids)
      else unique_candidates candidates seen_ids)"

definition find_potential_matches_in_db :: "CustomerDataPlatform \<Rightarrow> Database \<Rightarrow> CustomerData \<Rightarrow>
    CustomerModel list" where
  "find_potential_matches_in_db self db customer_data =
     unique_candidates (concat (map (run_query db) (candidate_queries self customer_data))) []"

text \<open>\<open>", ".join([f"{k}: {v}" for k, v in conflicts.items()])\<close>.\<close>

fun join_conflicts :: "conflict_dict \<Rightarrow> string" where
  "join_conflicts [] = []"
| "join_conflicts [(k, v)] = k @ '': '' @ v"
| "join_conflicts ((k, v) # rest) = k @ '': '' @ v @ '', '' @ join_conflicts rest"

text \<open>The body of the loop of \<open>_find_matching_customers\<close> for one candidate.\<close>

definition match_candidate :: "CustomerDataPlatform \<Rightarrow> CustomerData \<Rightarrow> CustomerModel \<Rightarrow>
    MatchResult list" where
  "match_candidate self customer_data customer_model =
     (case calculate_match_score (matcher self) customer_data
             (model_to_customer_data customer_model) of
        (sc, cf) \<Rightarrow>
          if sc < match_threshold self then []
          else [\<lparr>customer_id = model_id customer_model, score = sc, conflicts = cf,
                  is_safe_match = (cf = []),
                  reason = (if cf \<noteq> [] then ''Conflitos detectados: '' @ join_conflicts cf
                            else ''Match seguro'')\<rparr>])"

text \<open>
  \<open>matches.sort(key=lambda x: x.score, reverse=True)\<close> is stable: matches of equal
  score keep their order, as they do under \<open>sort_key\<close> on the negated score.
\<close>

definition find_matching_customers :: "CustomerDataPlatform \<Rightarrow> Database \<Rightarrow> CustomerData \<Rightarrow>
    MatchResult list" where
  "find_matching_customers self db customer_data =
     sort_key (\<lambda>m. - score m)
       (concat (map (match_candidate self customer_data)
          (find_potential_matches_in_db self db customer_data)))"

text \<open>The body of the loop of \<open>_merge_customer_data\<close> for one field.\<close>

fun merge_field :: "CustomerData \<Rightarrow> CustomerData \<Rightarrow> string \<Rightarrow> datetime \<Rightarrow> customer_field \<Rightarrow>
    CustomerData \<times> HistoryEntry list \<Rightarrow> CustomerData \<times> HistoryEntry list" where
  "merge_field existing new_data src current_time f (merged, history) =
     (let existing_value = getattr existing f;
          new_val = getattr new_data f
      in if new_val \<noteq> None \<and> strip (the new_val) \<noteq> []
         then if existing_value \<noteq> new_val
              then (setattr merged f new_val,
                    history @ [\<lparr>timestamp = current_time, field = field_key f,
                      old_value = existing_value, new_value = new_val, source = src,
                      confidence = 1\<rparr>])
              else (setattr merged f new_val, history)
         else (setattr merged f existing_value, history))"

definition merge_customer_data :: "CustomerData \<Rightarrow> CustomerData \<Rightarrow> string \<Rightarrow> datetime \<Rightarrow>
    CustomerData \<times> HistoryEntry list" where
  "merge_customer_data existing new_data src current_time =
     fold (merge_field existing new_data src current_time) VALID_CUSTOMER_FIELDS
       (CustomerData_init, [])"

text \<open>
  What \<open>add_customer_data\<close> returns: the dictionary's \<open>status\<close> with the entries a
  caller reads. \<open>Conflict_detected\<close> carries the best match's id, its conflicts, score
  and reason; \<open>Updated\<close> the customer id, the action, the match score, the conflicts
  reported and \<open>changes_made\<close>; \<open>Created\<close> the new id; \<open>Error\<close> the message. The
  other message texts are left out.
\<close>

datatype add_result =
    Conflict_detected string conflict_dict real string
  | Updated string string real conflict_dict nat
  | Created string
  | Error string

fun status :: "add_result \<Rightarrow> string" where
  "status (Conflict_detected best_id cf sc rs) = ''conflict_detected''"
| "status (Updated cid act sc cf n) = ''updated''"
| "status (Created cid) = ''created''"
| "status (Error msg) = ''error''"

text \<open>The history row \<open>add_customer_data\<close> stores for an entry of the merge.\<close>

definition history_model :: "string \<Rightarrow> HistoryEntry \<Rightarrow> HistoryModel" where
  "history_model cid hist_entry =
     \<lparr>timestamp = timestamp hist_entry, field = field hist_entry,
      old_value = (if truthy (old_value hist_entry) then old_value hist_entry else None),
      new_value = (if truthy (new_value hist_entry) then new_value hist_entry else None),
      source = source hist_entry, confidence = confidence hist_entry,
      history_customer_id = cid\<rparr>"

text \<open>
  The row that \<open>query(CustomerModel).filter(id == ...).first()\<close> returns is changed in
  place: the first row of \<open>customers\<close> with that id is replaced.
\<close>

fun replace_first :: "string \<Rightarrow> CustomerModel \<Rightarrow> CustomerModel list \<Rightarrow> CustomerModel list" where
  "replace_first cid row [] = []"
| "replace_first cid row (m # ms) =
     (if model_id m = cid then row # ms else m # replace_first cid row ms)"

text \<open>
  \<open>add_customer_data\<close>, with the store passed in and returned, and the two values the
  source draws from outside: \<open>new_id\<close> for \<open>uuid.uuid4()\<close> and \<open>current_time\<close> for
  \<open>datetime.now()\<close>.
\<close>

definition add_customer_data :: "CustomerDataPlatform \<Rightarrow> Database \<Rightarrow> CustomerData \<Rightarrow> string \<Rightarrow>
    bool \<Rightarrow> string \<Rightarrow> datetime \<Rightarrow> add_result \<times> Database" where
  "add_customer_data self db customer_data src force_merge new_id current_time =
     (case find_matching_customers self db customer_data of
        best_match # other_matches \<Rightarrow>
          if \<not> is_safe_match best_match \<and> \<not> force_merge
          then (Conflict_detected (customer_id best_match) (conflicts best_match)
                  (score best_match) (reason best_match), db)
          else
            (case find (\<lambda>m. model_id m = customer_id best_match) (customers db) of
               None \<Rightarrow> (Error (''Cliente '' @ customer_id best_match @ '' n'' @ [char_of (227::nat)]
                         @ ''o encontrado no banco''), db)
             | Some existing_model \<Rightarrow>
                 (case merge_customer_data (model_to_customer_data existing_model)
                         customer_data src current_time of
                    (merged_data, new_history) \<Rightarrow>
                      let updated_model =
                            (fold (\<lambda>f m. setattr m f (getattr merged_data f))
                               VALID_CUSTOMER_FIELDS existing_model)
                            \<lparr>updated_at := current_time,
                             confidence_score :=
                               max (confidence_score existing_model) (score best_match),
                             sources := (if src \<notin> set (sources existing_model)
                                         then sources existing_model @ [src]
                                         else sources existing_model)\<rparr>;
                          action_type = (if force_merge \<and> \<not> is_safe_match best_match
                                         then ''forced_merge'' else ''safe_merge'')
                      in (Updated (customer_id best_match) action_type (score best_match)
                            (if \<not> is_safe_match best_match then conflicts best_match else [])
                            (length new_history),
                          db\<lparr>customers :=
                                replace_first (customer_id best_match) updated_model
                                  (customers db),
                             customer_history := customer_history db
                               @ map (history_model (customer_id best_match)) new_history\<rparr>)))
      | [] \<Rightarrow>
          (Created new_id,
           db\<lparr>customers := customers db @
                [\<lparr>email = email customer_data, documento = documento customer_data,
                  nome = nome customer_data, telefone = telefone customer_data,
                  endereco = endereco customer_data, cidade = cidade customer_data,
                  estado = estado customer_data, cep = cep customer_data,
                  data_nascimento = data_nascimento customer_data,
                  profissao = profissao customer_data,
                  model_id = new_id, created_at = current_time, updated_at = current_time,
                  sources = [src], confidence_score = 1\<rparr>]\<rparr>))"

text \<open>
  \<open>update_match_threshold\<close>: the exception raised, if any, and the platform after the
  call.
\<close>

datatype exception = ValueError string

definition update_match_threshold :: "CustomerDataPlatform \<Rightarrow> real \<Rightarrow>
    exception option \<times> CustomerDataPlatform" where
  "update_match_threshold self new_threshold =
     (if 0 \<le> new_threshold \<and> new_threshold \<le> 1
      then (None, self\<lparr>match_threshold := new_threshold\<rparr>)
      else (Some (ValueError ''Threshold deve estar entre 0.0 e 1.0''), self))"

section \<open>Properties of the normalizers\<close>

lemma isspace_space: "isspace (CHR '' '')"
  by (simp add: isspace_def)

lemma isspace_lower_char: "isspace (lower_char c) = isspace c"
  by (auto simp: isspace_def lower_char_def Let_def)

lemma lower_char_idem: "lower_char (lower_char c) = lower_char c"
  by (auto simp: lower_char_def Let_def)

lemma lower_idem: "lower (lower s) = lower s"
  by (simp add: lower_def lower_char_idem)

lemma lower_dropWhile: "map lower_char (dropWhile isspace s) = dropWhile isspace (map lower_char s)"
  by (induction s) (simp_all add: isspace_lower_char)

lemma lower_strip: "lower (strip s) = strip (lower s)"
  by (simp add: lower_def strip_def rev_map[symmetric] lower_dropWhile)

lemma lower_sub_spaces: "lower (sub_spaces s) = sub_spaces (lower s)"
proof (induction s rule: sub_spaces.induct)
  case 1
  show ?case by (simp add: lower_def)
next
  case (2 c cs)
  show ?case
  proof (cases "isspace c")
    case True
    have "lower_char (CHR '' '') = CHR '' ''" by (simp add: lower_char_def)
    with 2(1)[OF True] True show ?thesis
      by (simp add: lower_def isspace_lower_char lower_dropWhile)
  next
    case False
    with 2(2)[OF False] show ?thesis
      by (simp add: lower_def isspace_lower_char)
  qed
qed

lemma dropWhile_hd: "dropWhile P xs = [] \<or> \<not> P (hd (dropWhile P xs))"
  by (induction xs) auto

lemma strip_trimmed: "trimmed (strip s)"
proof -
  let ?d = "dropWhile isspace s"
  let ?r = "dropWhile isspace (rev ?d)"
  show ?thesis
  proof (cases "?r = []")
    case True
    then show ?thesis by (simp add: trimmed_def strip_def)
  next
    case False
    then have d: "?d \<noteq> []" by (cases "dropWhile isspace s = []") simp_all
    from False have l: "\<not> isspace (hd ?r)" using dropWhile_hd[of isspace "rev ?d"] by auto
    have last_r: "last (rev ?r) = hd ?r" using False by (simp add: last_rev)
    from d have hd_d: "\<not> isspace (hd ?d)" using dropWhile_hd[of isspace s] by auto
    have "\<not> isspace (last (rev ?d))" using d hd_d by (simp add: last_rev)
    have "?d = rev (rev ?d)" by simp
    obtain pre where "rev ?d = pre @ ?r"
      by (metis takeWhile_dropWhile_id)
    then have "?d = rev ?r @ rev pre" by (metis rev_append rev_rev_ident)
    then have "hd ?d = hd (rev ?r)" using False by (metis hd_append2 rev_is_Nil_conv)
    with hd_d l last_r False show ?thesis
      by (simp add: trimmed_def strip_def)
  qed
qed

lemma strip_of_trimmed: "trimmed s \<Longrightarrow> strip s = s"
proof (cases "s = []")
  case True
  then show ?thesis by (simp add: strip_def)
next
  case False
  assume "trimmed s"
  with False have h: "\<not> isspace (hd s)" and l: "\<not> isspace (last s)"
    by (auto simp: trimmed_def)
  from False h have 1: "dropWhile isspace s = s" by (cases s) auto
  from False l have 2: "dropWhile isspace (rev s) = rev s"
    by (cases "rev s") (auto simp: last_rev hd_rev)
  show ?thesis by (simp add: strip_def 1 2)
qed

lemma sub_spaces_Nil_iff: "sub_spaces s = [] \<longleftrightarrow> s = []"
  by (cases s) auto

lemma hd_sub_spaces: "s \<noteq> [] \<Longrightarrow> \<not> isspace (hd s) \<Longrightarrow> hd (sub_spaces s) = hd s"
  by (cases s) auto

lemma last_sub_spaces: "s \<noteq> [] \<Longrightarrow> \<not> isspace (last s) \<Longrightarrow> last (sub_spaces s) = last s"
proof (induction s rule: sub_spaces.induct)
  case 1
  then show ?case by simp
next
  case (2 c cs)
  show ?case
  proof (cases "isspace c")
    case True
    with 2(4) have cs: "cs \<noteq> []" by auto
    with 2(4) have lc: "\<not> isspace (last cs)" by simp
    have dne: "dropWhile isspace cs \<noteq> []"
    proof
      assume "dropWhile isspace cs = []"
      then have "\<forall>x\<in>set cs. isspace x" by (simp add: dropWhile_eq_Nil_conv)
      with cs lc show False using last_in_set by blast
    qed
    have ld: "last (dropWhile isspace cs) = last cs"
      by (metis dne last_appendR takeWhile_dropWhile_id)
    have ne: "sub_spaces (dropWhile isspace cs) \<noteq> []"
      using dne by (simp only: sub_spaces_Nil_iff not_False_eq_True)
    have "sub_spaces (c # cs) = CHR '' '' # sub_spaces (dropWhile isspace cs)"
      using True by simp
    then have "last (sub_spaces (c # cs)) = last (sub_spaces (dropWhile isspace cs))"
      using ne by simp
    also have "\<dots> = last (dropWhile isspace cs)"
      using 2(1)[OF True dne] lc ld by simp
    also have "\<dots> = last (c # cs)"
      using ld cs by simp
    finally show ?thesis .
  next
    case False
    show ?thesis
    proof (cases "cs = []")
      case True
      with False show ?thesis by simp
    next
      case ne: False
      with 2(4) have "\<not> isspace (last cs)" by simp
      with 2(2)[OF False ne] False ne show ?thesis by (simp add: sub_spaces_Nil_iff)
    qed
  qed
qed

lemma sub_spaces_trimmed: "trimmed s \<Longrightarrow> trimmed (sub_spaces s)"
  by (auto simp: trimmed_def sub_spaces_Nil_iff hd_sub_spaces last_sub_spaces)

lemma sub_spaces_no_lead: "s = [] \<or> \<not> isspace (hd s) \<Longrightarrow> dropWhile isspace (sub_spaces s) = sub_spaces s"
  by (cases s) auto

lemma sub_spaces_idem: "sub_spaces (sub_spaces s) = sub_spaces s"
proof (induction s rule: sub_spaces.induct)
  case 1
  show ?case by simp
next
  case (2 c cs)
  show ?case
  proof (cases "isspace c")
    case True
    have "dropWhile isspace (sub_spaces (dropWhile isspace cs)) = sub_spaces (dropWhile isspace cs)"
      using dropWhile_hd[of isspace cs] by (intro sub_spaces_no_lead) auto
    with 2(1)[OF True] True show ?thesis by (simp add: isspace_space)
  next
    case False
    with 2(2)[OF False] show ?thesis by simp
  qed
qed

lemma normalize_text_idem: "normalize_text (Some (normalize_text s)) = normalize_text s"
proof (cases "truthy s")
  case False
  then show ?thesis by simp
next
  case True
  let ?t = "sub_spaces (strip (lower (the s)))"
  have l: "lower ?t = ?t" by (simp add: lower_sub_spaces lower_strip lower_idem)
  have "trimmed ?t" by (intro sub_spaces_trimmed strip_trimmed)
  then have st: "strip ?t = ?t" by (rule strip_of_trimmed)
  have "sub_spaces (strip (lower ?t)) = ?t" by (simp only: l st sub_spaces_idem)
  then show ?thesis using True by simp
qed

lemma normalize_document_idem: "normalize_document (Some (normalize_document s)) = normalize_document s"
  by (simp add: sub_non_digits_def)

lemma normalize_phone_idem: "normalize_phone (Some (normalize_phone s)) = normalize_phone s"
  by (simp add: sub_non_digits_def)

text \<open>
  Claim C10. Each normalizer is idempotent: for every input \<open>s\<close>, \<open>None\<close> and the empty
  string included, normalizing the result of \<open>normalize_text\<close>, \<open>normalize_document\<close> or
  \<open>normalize_phone\<close> again gives the same string.
\<close>

theorem normalizers_idempotent:
  "normalize_text (Some (normalize_text s)) = normalize_text s
   \<and> normalize_document (Some (normalize_document s)) = normalize_document s
   \<and> normalize_phone (Some (normalize_phone s)) = normalize_phone s"
  by (simp only: normalize_text_idem normalize_document_idem normalize_phone_idem simp_thms)

section \<open>Properties of the similarity scorer\<close>

text \<open>
  Claim C6, as stated: \<open>similarity(a, b) == similarity(b, a)\<close> for every pair of strings.
  It fails: the longest matching block is searched from the first argument, and
  \<open>tide\<close> against \<open>diet\<close> scores 0.25 while \<open>diet\<close> against \<open>tide\<close> scores 0.5.
\<close>

theorem similarity_score_not_commutative:
  "similarity_score ''tide'' ''diet'' \<noteq> similarity_score ''diet'' ''tide''"
proof -
  have 1: "similarity_score ''tide'' ''diet'' = 1 / 4" by code_simp
  have 2: "similarity_score ''diet'' ''tide'' = 1 / 2" by code_simp
  show ?thesis unfolding 1 2 by simp
qed

text \<open>
  Claim C6, amended: \<open>similarity(a, b) == similarity(b, a)\<close> holds when either string is
  empty (both scores are 0.0) or when the two strings are equal.
\<close>

theorem similarity_score_commutes_on_empty_or_equal:
  "str1 = [] \<or> str2 = [] \<or> str1 = str2 \<Longrightarrow>
   similarity_score str1 str2 = similarity_score str2 str1"
  by (auto simp: similarity_score_def)

theorem similarity_score_commutes_on_empty_or_equal_witness:
  "similarity_score [] ''diet'' = similarity_score ''diet'' []
   \<and> similarity_score ''diet'' [] = 0"
  using similarity_score_commutes_on_empty_or_equal [of "[]" "''diet''"]
  by (simp add: similarity_score_def)

section \<open>Properties of \<open>calculate_match_score\<close>\<close>

lemma normalize_document_truthy: "normalize_document d \<noteq> [] \<Longrightarrow> truthy d"
  by (simp split: if_splits)

text \<open>
  Claim C1. When the documents of \<open>a\<close> and \<open>b\<close> are both non-empty and unequal after the
  digit-only normalization, \<open>calculate_match_score\<close> returns the score 0.0 and a conflict
  dictionary that holds the document conflict alone, whatever the other fields are.
\<close>

theorem document_conflict_eliminatory:
  assumes "normalize_document (documento a) \<noteq> []"
    and "normalize_document (documento b) \<noteq> []"
    and "normalize_document (documento a) \<noteq> normalize_document (documento b)"
  shows "calculate_match_score self a b =
    (0, [(''documento'', ''Doc1: '' @ normalize_document (documento a)
                          @ '' vs Doc2: '' @ normalize_document (documento b))])"
proof -
  have ta: "truthy (documento a)"
    using assms(1) by (rule normalize_document_truthy)
  have tb: "truthy (documento b)"
    using assms(2) by (rule normalize_document_truthy)
  have "check_document_match self (documento a) (documento b) =
    (0, [(''documento'', ''Doc1: '' @ normalize_document (documento a)
                          @ '' vs Doc2: '' @ normalize_document (documento b))])"
    using ta tb assms by (simp add: Let_def del: normalize_document.simps)
  then show ?thesis by (simp del: check_document_match.simps score_totals.simps)
qed

theorem document_conflict_eliminatory_witness:
  "calculate_match_score CustomerMatcher_init
     (CustomerData_init\<lparr>documento := Some ''123.456.789-00'', nome := Some ''Ana Silva'',
        email := Some ''ana@x.com''\<rparr>)
     (CustomerData_init\<lparr>documento := Some ''98765432100'', nome := Some ''Ana Silva'',
        email := Some ''ana@x.com''\<rparr>)
   = (0, [(''documento'', ''Doc1: 12345678900 vs Doc2: 98765432100'')])"
proof -
  let ?a = "CustomerData_init\<lparr>documento := Some ''123.456.789-00'', nome := Some ''Ana Silva'',
        email := Some ''ana@x.com''\<rparr>"
  let ?b = "CustomerData_init\<lparr>documento := Some ''98765432100'', nome := Some ''Ana Silva'',
        email := Some ''ana@x.com''\<rparr>"
  have na: "normalize_document (documento ?a) = ''12345678900''"
    by (simp add: sub_non_digits_def isdigit_def)
  have nb: "normalize_document (documento ?b) = ''98765432100''"
    by (simp add: sub_non_digits_def isdigit_def)
  have h1: "normalize_document (documento ?a) \<noteq> []" unfolding na by simp
  have h2: "normalize_document (documento ?b) \<noteq> []" unfolding nb by simp
  have h3: "normalize_document (documento ?a) \<noteq> normalize_document (documento ?b)"
    unfolding na nb by simp
  from document_conflict_eliminatory [OF h1 h2 h3, of CustomerMatcher_init]
  show ?thesis unfolding na nb by simp
qed

text \<open>The weight \<open>score_totals\<close> accumulates, for any two records.\<close>

lemma score_totals_total_weight:
  "fst (snd (score_totals self customer1 customer2 doc_score)) =
     (if truthy (documento customer1) \<and> truthy (documento customer2)
      then weights self ''documento'' else 0)
   + (if truthy (email customer1) \<and> truthy (email customer2)
      then weights self ''email'' else 0)
   + (if truthy (nome customer1) \<and> truthy (nome customer2)
      then weights self ''nome'' else 0)
   + (if truthy (telefone customer1) \<and> truthy (telefone customer2)
      then weights self ''telefone'' else 0)
   + (if truthy (endereco customer1) \<and> truthy (endereco customer2)
      then weights self ''endereco'' else 0)"
  by (auto simp: Let_def split_beta simp del: check_email_match.simps check_name_match.simps
      check_phone_match.simps check_birthdate_match.simps check_address_match.simps)

text \<open>
  Claim C2 says that \<open>total_weight\<close> counts the weight of every field both records
  have, \<open>data_nascimento\<close> included. The source adds to \<open>total_weight\<close> for documento,
  email, nome, telefone and endereco, and not for \<open>data_nascimento\<close>: two records that
  share a birth date and nothing else reach the final division with a score of 0.05
  over a weight of 0.
\<close>

theorem total_weight_omits_data_nascimento:
  "score_totals CustomerMatcher_init
     (CustomerData_init\<lparr>data_nascimento := Some ''1990-01-01''\<rparr>)
     (CustomerData_init\<lparr>data_nascimento := Some ''1990-01-01''\<rparr>) 0
   = (weights CustomerMatcher_init ''data_nascimento'', 0, [])
   \<and> weights CustomerMatcher_init ''data_nascimento'' = 0.05"
  by (simp add: CustomerData_init_def CustomerMatcher_init_def FIELD_WEIGHTS_def dict_update_def)

text \<open>
  Claim C5 says that the score lies in [0, 1]. With the birth date's weight in the
  numerator and not in the denominator, two records that share an email and a birth
  date score 0.30 / 0.25 = 1.2.
\<close>

theorem match_score_above_one:
  "calculate_match_score CustomerMatcher_init
     (CustomerData_init\<lparr>email := Some ''x@y.com'', data_nascimento := Some ''1990-01-01''\<rparr>)
     (CustomerData_init\<lparr>email := Some ''x@y.com'', data_nascimento := Some ''1990-01-01''\<rparr>)
   = (6 / 5, [])"
  by (simp add: CustomerData_init_def CustomerMatcher_init_def FIELD_WEIGHTS_def dict_update_def)

section \<open>Properties of the merge engine\<close>

lemma getattr_setattr:
  "getattr (setattr c f v) g = (if f = g then v else getattr c g)"
  by (cases f; cases g; simp)

lemma customer_data_eqI:
  fixes x y :: CustomerData
  assumes "\<And>f. getattr x f = getattr y f"
  shows "x = y"
proof -
  have "email x = email y" using assms[of Email] by simp
  moreover have "documento x = documento y" using assms[of Documento] by simp
  moreover have "nome x = nome y" using assms[of Nome] by simp
  moreover have "telefone x = telefone y" using assms[of Telefone] by simp
  moreover have "endereco x = endereco y" using assms[of Endereco] by simp
  moreover have "cidade x = cidade y" using assms[of Cidade] by simp
  moreover have "estado x = estado y" using assms[of Estado] by simp
  moreover have "cep x = cep y" using assms[of Cep] by simp
  moreover have "data_nascimento x = data_nascimento y" using assms[of Data_nascimento] by simp
  moreover have "profissao x = profissao y" using assms[of Profissao] by simp
  ultimately show ?thesis by simp
qed

lemma not_blank_iff: "\<not> blank v \<longleftrightarrow> v \<noteq> None \<and> strip (the v) \<noteq> []"
  by (cases v) simp_all

lemma merge_field_eq:
  "merge_field existing new_data src current_time f (merged, history) =
     (setattr merged f (if blank (getattr new_data f) then getattr existing f
                        else getattr new_data f),
      history @ (if \<not> blank (getattr new_data f) \<and> getattr existing f \<noteq> getattr new_data f
                 then [\<lparr>timestamp = current_time, field = field_key f,
                        old_value = getattr existing f, new_value = getattr new_data f,
                        source = src, confidence = 1\<rparr>]
                 else []))"
  by (cases "getattr new_data f") (simp_all add: Let_def)

lemma merge_fold:
  "fold (merge_field existing new_data src current_time) fs (merged0, history0) =
     (merged, history) \<Longrightarrow>
   (\<forall>f. getattr merged f =
      (if f \<in> set fs
       then (if blank (getattr new_data f) then getattr existing f else getattr new_data f)
       else getattr merged0 f))
   \<and> history = history0 @
       map (\<lambda>f. \<lparr>timestamp = current_time, field = field_key f,
                  old_value = getattr existing f, new_value = getattr new_data f,
                  source = src, confidence = 1\<rparr>)
         (filter (\<lambda>f. \<not> blank (getattr new_data f)
                      \<and> getattr existing f \<noteq> getattr new_data f) fs)"
proof (induction fs arbitrary: merged0 history0)
  case Nil
  then show ?case by simp
next
  case (Cons x xs)
  from Cons.prems have
    "fold (merge_field existing new_data src current_time) xs
       (merge_field existing new_data src current_time x (merged0, history0)) = (merged, history)"
    by simp
  from Cons.IH[OF this[unfolded merge_field_eq]]
  show ?case by (auto simp: getattr_setattr)
qed

lemma valid_fields_all: "f \<in> set VALID_CUSTOMER_FIELDS"
  by (cases f) (simp_all add: VALID_CUSTOMER_FIELDS_def)

lemma valid_fields_distinct: "distinct VALID_CUSTOMER_FIELDS"
  by (simp add: VALID_CUSTOMER_FIELDS_def)

text \<open>
  Claim C3. For every existing record, incoming record and source, every field of the
  record \<open>merge_customer_data\<close> returns is the incoming value when that value is not
  \<open>None\<close> and not blank after \<open>strip\<close>, and the existing value otherwise; and the
  history holds one entry, with the existing value as \<open>old_value\<close>, the incoming value
  as \<open>new_value\<close>, the given source and confidence 1.0, for each field whose incoming
  value is present and differs from the existing one, in the order of
  \<open>VALID_CUSTOMER_FIELDS\<close>, and nothing else. \<open>VALID_CUSTOMER_FIELDS\<close> lists each of the
  ten fields once.
\<close>

theorem merge_customer_data_fields_and_history:
  "merge_customer_data existing new_data src current_time = (merged, history) \<Longrightarrow>
   (\<forall>f. getattr merged f =
      (if blank (getattr new_data f) then getattr existing f else getattr new_data f))
   \<and> history =
       map (\<lambda>f. \<lparr>timestamp = current_time, field = field_key f,
                  old_value = getattr existing f, new_value = getattr new_data f,
                  source = src, confidence = 1\<rparr>)
         (filter (\<lambda>f. \<not> blank (getattr new_data f)
                      \<and> getattr existing f \<noteq> getattr new_data f) VALID_CUSTOMER_FIELDS)
   \<and> distinct VALID_CUSTOMER_FIELDS \<and> set VALID_CUSTOMER_FIELDS = UNIV"
proof -
  assume "merge_customer_data existing new_data src current_time = (merged, history)"
  then have "fold (merge_field existing new_data src current_time) VALID_CUSTOMER_FIELDS
       (CustomerData_init, []) = (merged, history)"
    by (simp add: merge_customer_data_def)
  from merge_fold[OF this] show ?thesis
    using valid_fields_all valid_fields_distinct by auto
qed

theorem merge_customer_data_fields_and_history_witness:
  "merge_customer_data
     (CustomerData_init\<lparr>email := Some ''x@y.com'', nome := Some ''Carlos Souza''\<rparr>)
     (CustomerData_init\<lparr>email := Some ''x@y.com'', nome := Some ''Carlos Souza'',
        telefone := Some ''11999998888''\<rparr>) ''csv_import'' 7
   = (CustomerData_init\<lparr>email := Some ''x@y.com'', nome := Some ''Carlos Souza'',
        telefone := Some ''11999998888''\<rparr>,
      [\<lparr>timestamp = 7, field = ''telefone'', old_value = None,
        new_value = Some ''11999998888'', source = ''csv_import'', confidence = 1\<rparr>])
   \<and> [\<lparr>timestamp = 7, field = ''telefone'', old_value = None,
        new_value = Some ''11999998888'', source = ''csv_import'', confidence = 1\<rparr>]
     = map (\<lambda>f. \<lparr>timestamp = 7, field = field_key f,
                  old_value = getattr (CustomerData_init\<lparr>email := Some ''x@y.com'',
                    nome := Some ''Carlos Souza''\<rparr>) f,
                  new_value = getattr (CustomerData_init\<lparr>email := Some ''x@y.com'',
                    nome := Some ''Carlos Souza'', telefone := Some ''11999998888''\<rparr>) f,
                  source = ''csv_import'', confidence = 1\<rparr>) [Telefone]"
proof -
  let ?e = "CustomerData_init\<lparr>email := Some ''x@y.com'', nome := Some ''Carlos Souza''\<rparr>"
  let ?n = "CustomerData_init\<lparr>email := Some ''x@y.com'', nome := Some ''Carlos Souza'',
        telefone := Some ''11999998888''\<rparr>"
  let ?h = "\<lparr>timestamp = 7, field = ''telefone'', old_value = None,
        new_value = Some ''11999998888'', source = ''csv_import'', confidence = 1\<rparr>"
  have r: "merge_customer_data ?e ?n ''csv_import'' 7 = (?n, [?h])"
    by (simp add: merge_customer_data_def VALID_CUSTOMER_FIELDS_def CustomerData_init_def
        strip_def isspace_def Let_def)
  have f: "filter (\<lambda>f. \<not> blank (getattr ?n f) \<and> getattr ?e f \<noteq> getattr ?n f)
             VALID_CUSTOMER_FIELDS = [Telefone]"
    by (simp add: VALID_CUSTOMER_FIELDS_def CustomerData_init_def strip_def isspace_def)
  from merge_customer_data_fields_and_history [OF r]
  have "[?h] = map (\<lambda>f. \<lparr>timestamp = 7, field = field_key f,
                  old_value = getattr ?e f, new_value = getattr ?n f,
                  source = ''csv_import'', confidence = 1\<rparr>) [Telefone]"
    unfolding f by blast
  with r show ?thesis by blast
qed

text \<open>
  Claim C8. Merging is idempotent on identical data: for every record \<open>a\<close> and source,
  \<open>merge_customer_data\<close> of \<open>a\<close> into \<open>a\<close> returns \<open>a\<close> and an empty history.
\<close>

theorem merge_customer_data_idempotent:
  "merge_customer_data a a src current_time = (a, [])"
proof -
  obtain merged history where r: "merge_customer_data a a src current_time = (merged, history)"
    by (cases "merge_customer_data a a src current_time") auto
  then have "fold (merge_field a a src current_time) VALID_CUSTOMER_FIELDS
       (CustomerData_init, []) = (merged, history)"
    by (simp add: merge_customer_data_def)
  from merge_fold[OF this] have g: "\<And>f. getattr merged f = getattr a f" and h: "history = []"
    using valid_fields_all by auto
  from g have "merged = a" by (rule customer_data_eqI)
  with h r show ?thesis by simp
qed

theorem merge_customer_data_idempotent_witness:
  "merge_customer_data
     (CustomerData_init\<lparr>email := Some ''x@y.com'', nome := Some ''Carlos Souza''\<rparr>)
     (CustomerData_init\<lparr>email := Some ''x@y.com'', nome := Some ''Carlos Souza''\<rparr>)
     ''manual'' 3
   = (CustomerData_init\<lparr>email := Some ''x@y.com'', nome := Some ''Carlos Souza''\<rparr>, [])"
  by (rule merge_customer_data_idempotent)

section \<open>Properties of \<open>update_match_threshold\<close>\<close>

text \<open>
  Claim C9. For every new threshold outside [0, 1], \<open>update_match_threshold\<close> raises
  \<open>ValueError\<close> and leaves the platform, and so the stored threshold, unchanged; for
  every threshold \<open>t\<close> with \<open>0 \<le> t \<le> 1\<close> it raises nothing and the stored threshold
  becomes \<open>t\<close>.
\<close>

theorem update_match_threshold_validates:
  "(new_threshold < 0 \<or> 1 < new_threshold \<longrightarrow>
      update_match_threshold self new_threshold
        = (Some (ValueError ''Threshold deve estar entre 0.0 e 1.0''), self))
   \<and> (0 \<le> new_threshold \<and> new_threshold \<le> 1 \<longrightarrow>
      update_match_threshold self new_threshold
        = (None, self\<lparr>match_threshold := new_threshold\<rparr>)
      \<and> match_threshold (snd (update_match_threshold self new_threshold)) = new_threshold)"
  by (auto simp: update_match_threshold_def)

theorem update_match_threshold_validates_witness:
  "update_match_threshold CustomerDataPlatform_init (3 / 2)
     = (Some (ValueError ''Threshold deve estar entre 0.0 e 1.0''), CustomerDataPlatform_init)
   \<and> update_match_threshold CustomerDataPlatform_init (1 / 2)
     = (None, CustomerDataPlatform_init\<lparr>match_threshold := 1 / 2\<rparr>)"
  using update_match_threshold_validates [of "3 / 2" CustomerDataPlatform_init]
    update_match_threshold_validates [of "1 / 2" CustomerDataPlatform_init]
  by simp

section \<open>Properties of \<open>add_customer_data\<close>\<close>

lemma match_candidate_safe:
  "m \<in> set (match_candidate self customer_data customer_model) \<Longrightarrow>
   is_safe_match m = (conflicts m = [])"
  by (auto simp: match_candidate_def split: prod.splits if_splits)

lemma find_matching_customers_safe:
  "m \<in> set (find_matching_customers self db customer_data) \<Longrightarrow>
   is_safe_match m = (conflicts m = [])"
  by (auto simp: find_matching_customers_def dest: match_candidate_safe)

text \<open>
  Claim C7. Whatever the incoming record, the source and the store, when the first
  match of the sorted list has a non-empty conflict dictionary and \<open>force_merge\<close> is
  false, \<open>add_customer_data\<close> returns the status \<open>conflict_detected\<close> with that match's
  conflicts and the store it was given: no customer row is created or changed and no
  history row is added.
\<close>

theorem conflict_rejected_without_mutation:
  assumes "find_matching_customers self db customer_data = best_match # other_matches"
    and "conflicts best_match \<noteq> []"
    and "\<not> force_merge"
  shows "add_customer_data self db customer_data src force_merge new_id current_time =
    (Conflict_detected (customer_id best_match) (conflicts best_match) (score best_match)
       (reason best_match), db)
    \<and> status (fst (add_customer_data self db customer_data src force_merge new_id current_time))
        = ''conflict_detected''"
proof -
  have "best_match \<in> set (find_matching_customers self db customer_data)"
    using assms(1) by simp
  then have "\<not> is_safe_match best_match"
    using assms(2) by (simp add: find_matching_customers_safe)
  then show ?thesis using assms(1,3) by (simp add: add_customer_data_def)
qed

theorem conflict_rejected_without_mutation_witness:
  "add_customer_data CustomerDataPlatform_init
     \<lparr>customers = [\<lparr>email = Some ''a@b.com'', documento = Some ''12345678900'', nome = None,
         telefone = Some ''111'', endereco = None, cidade = None, estado = None, cep = None,
         data_nascimento = None, profissao = None, model_id = ''c1'', created_at = 0,
         updated_at = 0, sources = [''crm''], confidence_score = 1\<rparr>],
      customer_history = []\<rparr>
     (CustomerData_init\<lparr>email := Some ''a@b.com'', documento := Some ''123.456.789-00'',
        telefone := Some ''222''\<rparr>) ''csv_import'' False ''c2'' 5
   = (Conflict_detected ''c1'' [(''telefone'', ''Tel1: 222 vs Tel2: 111'')] (13 / 17)
        ''Conflitos detectados: telefone: Tel1: 222 vs Tel2: 111'',
      \<lparr>customers = [\<lparr>email = Some ''a@b.com'', documento = Some ''12345678900'', nome = None,
         telefone = Some ''111'', endereco = None, cidade = None, estado = None, cep = None,
         data_nascimento = None, profissao = None, model_id = ''c1'', created_at = 0,
         updated_at = 0, sources = [''crm''], confidence_score = 1\<rparr>],
       customer_history = []\<rparr>)"
proof -
  let ?db = "\<lparr>customers = [\<lparr>email = Some ''a@b.com'', documento = Some ''12345678900'',
         nome = None, telefone = Some ''111'', endereco = None, cidade = None, estado = None,
         cep = None, data_nascimento = None, profissao = None, model_id = ''c1'',
         created_at = 0, updated_at = 0, sources = [''crm''], confidence_score = 1\<rparr>],
      customer_history = []\<rparr>"
  let ?cd = "CustomerData_init\<lparr>email := Some ''a@b.com'',
        documento := Some ''123.456.789-00'', telefone := Some ''222''\<rparr>"
  let ?m = "\<lparr>customer_id = ''c1'', score = 13 / 17,
       conflicts = [(''telefone'', ''Tel1: 222 vs Tel2: 111'')], is_safe_match = False,
       reason = ''Conflitos detectados: telefone: Tel1: 222 vs Tel2: 111''\<rparr>"
  have h1: "find_matching_customers CustomerDataPlatform_init ?db ?cd = ?m # []"
    by (simp add: find_matching_customers_def find_potential_matches_in_db_def
        candidate_queries_def match_candidate_def model_to_customer_data_def
        CustomerDataPlatform_init_def CustomerMatcher_init_def FIELD_WEIGHTS_def
        MATCH_THRESHOLD_def CustomerData_init_def sub_non_digits_def isdigit_def
        dict_update_def Let_def)
  have h2: "conflicts ?m \<noteq> []" by simp
  have h3: "\<not> False" by simp
  from conflict_rejected_without_mutation [OF h1 h2 h3, of "''csv_import''" "''c2''" 5]
  show ?thesis by simp
qed

text \<open>
  Claim C4 says that \<open>add_customer_data\<close> rejects an empty record before any lookup and
  without touching the store. \<open>add_customer_data\<close> has no such test: for the record
  with every field \<open>None\<close> no lookup is issued and nothing matches, and the record is
  stored as a new customer.
\<close>

theorem empty_customer_data_is_created:
  "is_empty CustomerData_init
   \<and> candidate_queries CustomerDataPlatform_init CustomerData_init = []
   \<and> add_customer_data CustomerDataPlatform_init \<lparr>customers = [], customer_history = []\<rparr>
       CustomerData_init ''manual'' False ''id-1'' 0
     = (Created ''id-1'',
        \<lparr>customers = [\<lparr>email = None, documento = None, nome = None, telefone = None,
            endereco = None, cidade = None, estado = None, cep = None,
            data_nascimento = None, profissao = None, model_id = ''id-1'', created_at = 0,
            updated_at = 0, sources = [''manual''], confidence_score = 1\<rparr>],
         customer_history = []\<rparr>)"
  by (simp add: is_empty_def CustomerData_init_def candidate_queries_def add_customer_data_def
      find_matching_customers_def find_potential_matches_in_db_def)

text \<open>An empty record whose email is a single space does issue the lookup by email.\<close>

lemma blank_email_issues_a_lookup:
  "is_empty (CustomerData_init\<lparr>email := Some '' ''\<rparr>)
   \<and> candidate_queries CustomerDataPlatform_init (CustomerData_init\<lparr>email := Some '' ''\<rparr>)
     = [By_email '' '']"
  by (simp add: is_empty_def CustomerData_init_def candidate_queries_def strip_def isspace_def)


end
